theory Spec2Isabelle
  imports Main
begin

section \<open>The booking conversation: state, nodes, routers and graph\<close>

text \<open>
  A shallow embedding of the booking pattern: \<^verbatim>\<open>state.py\<close> (the state that is threaded
  through the graph), \<^verbatim>\<open>nodes.py\<close> (the six nodes of \<^verbatim>\<open>BookingNodes\<close>) and
  \<^verbatim>\<open>graph.py\<close> (the two routing functions and the edges of the graph).

  Conventions of the embedding.
  \<^item> Python strings are \<^typ>\<open>string\<close>; text outside ASCII (the bullet and the emoji of the
    bot's replies) is written as its UTF-8 bytes. \<^verbatim>\<open>str.lower\<close> and the regular
    expression's \<^verbatim>\<open>\b\<close> are modelled on ASCII letters, digits and the underscore.
  \<^item> \<^verbatim>\<open>print\<close> calls write to the console only and are left out.
  \<^item> Every node returns \<^verbatim>\<open>{**state, ...}\<close>: a full copy of the state with some keys
    replaced. The model returns the updated record.
  \<^item> An exception is a value \<open>Inl e\<close> of the result type.
\<close>

subsection \<open>state.py\<close>

text \<open>
  \<^verbatim>\<open>BookingData\<close> is a \<^verbatim>\<open>TypedDict\<close> with \<^verbatim>\<open>total=False\<close> whose values are
  \<^verbatim>\<open>Optional[str]\<close>: a key may be missing, hold \<^verbatim>\<open>None\<close>, or hold a string.
\<close>

datatype field = Missing | Null | Str string

record BookingData =
  service :: field
  appointment_date :: field
  appointment_time :: field

text \<open>
  The content of a LangChain message is a string or a list of parts, each part a string
  or a dictionary (LangGraph Studio sends \<^verbatim>\<open>[{"type": "text", "text": ...}]\<close>).
\<close>

datatype part = PartStr string | PartDict "(string \<times> string) list"

datatype content = Text string | Parts "part list"

datatype message = HumanMessage content | AIMessage content

record BookingState =
  messages :: "message list"
  intent :: "string option"
  booking_data :: BookingData
  booking_confirmed :: bool
  answer :: "string option"

subsection \<open>Python primitives used by the nodes\<close>

datatype error = IndexError | KeyError | TypeError

text \<open>\<^verbatim>\<open>d.get(key)\<close>: \<^verbatim>\<open>None\<close> when the key is missing, else the stored value.\<close>

definition dict_get :: "field \<Rightarrow> string option" where
  "dict_get f = (case f of Missing \<Rightarrow> None | Null \<Rightarrow> None | Str s \<Rightarrow> Some s)"

text \<open>\<^verbatim>\<open>d.get(key, default)\<close>: the default only when the key is missing.\<close>

definition dict_get_default :: "field \<Rightarrow> string \<Rightarrow> string option" where
  "dict_get_default f d = (case f of Missing \<Rightarrow> Some d | Null \<Rightarrow> None | Str s \<Rightarrow> Some s)"

text \<open>\<^verbatim>\<open>bool(x)\<close> for an optional string: \<^verbatim>\<open>None\<close> and \<^verbatim>\<open>""\<close> are false.\<close>

definition truthy :: "string option \<Rightarrow> bool" where
  "truthy x = (case x of None \<Rightarrow> False | Some s \<Rightarrow> s \<noteq> [])"

text \<open>\<^verbatim>\<open>f"{x}"\<close> for an optional string.\<close>

definition fmt :: "string option \<Rightarrow> string" where
  "fmt x = (case x of None \<Rightarrow> ''None'' | Some s \<Rightarrow> s)"

definition lower_char :: "char \<Rightarrow> char" where
  "lower_char c =
     (if c \<in> set ''ABCDEFGHIJKLMNOPQRSTUVWXYZ'' then char_of (of_char c + (32::nat)) else c)"

definition lower :: "string \<Rightarrow> string" where
  "lower s = map lower_char s"

text \<open>\<^verbatim>\<open>sub in s\<close> for strings: \<open>sub\<close> occurs in \<open>s\<close> as a contiguous substring.\<close>

primrec is_in :: "string \<Rightarrow> string \<Rightarrow> bool" where
  "is_in sub [] = (sub = [])"
| "is_in sub (c # cs) = (take (length sub) (c # cs) = sub \<or> is_in sub cs)"

text \<open>\<^verbatim>\<open>sep.join(xs)\<close>\<close>

fun join :: "string \<Rightarrow> string list \<Rightarrow> string" where
  "join sep [] = []"
| "join sep [x] = x"
| "join sep (x # y # ys) = x @ sep @ join sep (y # ys)"

subsection \<open>The time pattern\<close>

text \<open>
  \<^verbatim>\<open>re.search(r'\b([0-9]{1,2}):?([0-9]{2})?\b', s)\<close>: the leftmost position at which
  the pattern matches, and there the first match in the order of a backtracking matcher
  with greedy quantifiers: two digits before one, a colon before none, a minute group
  before none. The result is the pair of groups 1 and 2 (group 2 is \<open>None\<close> when it did
  not take part in the match).
\<close>

definition is_digit :: "char \<Rightarrow> bool" where
  "is_digit c = (c \<in> set ''0123456789'')"

definition is_word :: "char \<Rightarrow> bool" where
  "is_word c =
     (c \<in> set ''abcdefghijklmnopqrstuvwxyzABCDEFGHIJKLMNOPQRSTUVWXYZ0123456789_'')"

definition word_boundary :: "char option \<Rightarrow> char option \<Rightarrow> bool" where
  "word_boundary prev nxt =
     ((case prev of None \<Rightarrow> False | Some c \<Rightarrow> is_word c) \<noteq>
      (case nxt of None \<Rightarrow> False | Some c \<Rightarrow> is_word c))"

definition first_char :: "string \<Rightarrow> char option" where
  "first_char s = (case s of [] \<Rightarrow> None | c # _ \<Rightarrow> Some c)"

definition digits_at :: "nat \<Rightarrow> string \<Rightarrow> bool" where
  "digits_at k s = (k \<le> length s \<and> list_all is_digit (take k s))"

definition hours :: "string \<Rightarrow> (string \<times> string) list" where
  "hours s =
     (if digits_at 2 s then [(take 2 s, drop 2 s)] else []) @
     (if digits_at 1 s then [(take 1 s, drop 1 s)] else [])"

definition colons :: "string \<Rightarrow> (string \<times> string) list" where
  "colons s = (if first_char s = Some CHR '':'' then [('':'', tl s)] else []) @ [([], s)]"

definition minutes :: "string \<Rightarrow> (string option \<times> string) list" where
  "minutes s = (if digits_at 2 s then [(Some (take 2 s), drop 2 s)] else []) @ [(None, s)]"

definition match_at :: "char option \<Rightarrow> string \<Rightarrow> (string \<times> string option) option" where
  "match_at prev s =
     (if \<not> word_boundary prev (first_char s) then None
      else
        (case [(h, m).
                 (h, r1) \<leftarrow> hours s, (c, r2) \<leftarrow> colons r1, (m, r3) \<leftarrow> minutes r2,
                 word_boundary
                   (Some (last (h @ c @ (case m of None \<Rightarrow> [] | Some d \<Rightarrow> d))))
                   (first_char r3)]
         of [] \<Rightarrow> None | g # _ \<Rightarrow> Some g))"

fun search :: "char option \<Rightarrow> string \<Rightarrow> (string \<times> string option) option" where
  "search prev [] = match_at prev []"
| "search prev (c # cs) =
     (case match_at prev (c # cs) of Some g \<Rightarrow> Some g | None \<Rightarrow> search (Some c) cs)"

definition re_search_time :: "string \<Rightarrow> (string \<times> string option) option" where
  "re_search_time s = search None s"

subsection \<open>nodes.py\<close>

definition has_service :: "BookingData \<Rightarrow> bool" where
  "has_service bd = truthy (dict_get (service bd))"

definition has_date :: "BookingData \<Rightarrow> bool" where
  "has_date bd = truthy (dict_get (appointment_date bd))"

definition has_time :: "BookingData \<Rightarrow> bool" where
  "has_time bd = truthy (dict_get (appointment_time bd))"

definition detect_intent_node :: "BookingState \<Rightarrow> BookingState" where
  "detect_intent_node state = state\<lparr>intent := Some ''book''\<rparr>"

text \<open>\<^verbatim>\<open>message.content[0]["text"]\<close>, with the exceptions of Python's indexing.\<close>

definition content_of :: "message \<Rightarrow> content" where
  "content_of m = (case m of HumanMessage c \<Rightarrow> c | AIMessage c \<Rightarrow> c)"

definition first_text :: "content \<Rightarrow> error + string" where
  "first_text c =
     (case c of
        Text s \<Rightarrow> (case s of [] \<Rightarrow> Inl IndexError | _ # _ \<Rightarrow> Inl TypeError)
      | Parts ps \<Rightarrow>
          (case ps of
             [] \<Rightarrow> Inl IndexError
           | p # _ \<Rightarrow>
               (case p of
                  PartStr _ \<Rightarrow> Inl TypeError
                | PartDict d \<Rightarrow>
                    (case map_of d ''text'' of None \<Rightarrow> Inl KeyError | Some t \<Rightarrow> Inr t))))"

text \<open>The three \<^verbatim>\<open>if/elif\<close> chains of the extraction, each as the value it assigns.\<close>

definition detect_service :: "string \<Rightarrow> string option" where
  "detect_service last_message =
     (if is_in ''haircut'' last_message then Some ''haircut''
      else if is_in ''beard'' last_message then Some ''beard trim''
      else if is_in ''styling'' last_message then Some ''styling''
      else None)"

definition detect_date :: "string \<Rightarrow> string option" where
  "detect_date last_message =
     (if is_in ''today'' last_message then Some ''today''
      else if is_in ''tomorrow'' last_message then Some ''tomorrow''
      else if is_in ''day after tomorrow'' last_message then Some ''day after tomorrow''
      else None)"

definition detect_time :: "string \<Rightarrow> string option" where
  "detect_time last_message =
     (case re_search_time last_message of
        None \<Rightarrow> None
      | Some (hour, group2) \<Rightarrow>
          Some (hour @ '':'' @ (if truthy group2 then fmt group2 else ''00'')))"

text \<open>\<^verbatim>\<open>booking_data[key] = value\<close> when something was detected, else no assignment.\<close>

definition assign :: "string option \<Rightarrow> field \<Rightarrow> field" where
  "assign v f = (case v of None \<Rightarrow> f | Some s \<Rightarrow> Str s)"

definition confirmation_words :: "string list" where
  "confirmation_words = [''yes'', ''perfect'', ''ok'', ''confirm'']"

text \<open>\<^verbatim>\<open>any(word in last_message for word in confirmation_words)\<close>\<close>

definition affirmative :: "string \<Rightarrow> bool" where
  "affirmative last_message = list_ex (\<lambda>word. is_in word last_message) confirmation_words"

definition merge_booking :: "string \<Rightarrow> BookingData \<Rightarrow> BookingData" where
  "merge_booking last_message bd =
     bd\<lparr>service := assign (detect_service last_message) (service bd),
        appointment_date := assign (detect_date last_message) (appointment_date bd),
        appointment_time := assign (detect_time last_message) (appointment_time bd)\<rparr>"

definition extract_booking_data_node :: "BookingState \<Rightarrow> error + BookingState" where
  "extract_booking_data_node state =
     (if messages state = [] then Inr state
      else
        (case first_text (content_of (last (messages state))) of
           Inl e \<Rightarrow> Inl e
         | Inr raw \<Rightarrow>
             (let last_message = lower raw;
                  bd = merge_booking last_message (booking_data state);
                  confirmed =
                    (if has_service bd \<and> has_date bd \<and> has_time bd
                     then (if affirmative last_message then True else booking_confirmed state)
                     else booking_confirmed state)
              in Inr (state\<lparr>booking_data := bd, booking_confirmed := confirmed\<rparr>))))"

definition available_times :: "string list" where
  "available_times = [''9:00'', ''10:00'', ''11:00'', ''15:00'', ''16:00'', ''17:00'']"

definition bullet :: string where
  "bullet = [CHR 0xE2, CHR 0x80, CHR 0xA2]"

definition party_popper :: string where
  "party_popper = [CHR 0xF0, CHR 0x9F, CHR 0x8E, CHR 0x89]"

definition check_availability_node :: "BookingState \<Rightarrow> BookingState" where
  "check_availability_node state =
     (let bd = booking_data state;
          svc = dict_get_default (service bd) ''service'';
          date = dict_get_default (appointment_date bd) ''date'';
          time = dict_get (appointment_time bd)
      in if truthy time then
           (if fmt time \<in> set available_times then
              state\<lparr>answer := Some (''Perfect, I'm confirming your appointment:'' @
                [CHR 0x0A] @ bullet @ '' Service: '' @ fmt svc @
                [CHR 0x0A] @ bullet @ '' Date: '' @ fmt date @
                [CHR 0x0A] @ bullet @ '' Time: '' @ fmt time @
                [CHR 0x0A, CHR 0x0A] @ ''Do you confirm the booking?'')\<rparr>
            else
              state\<lparr>booking_data := bd\<lparr>appointment_time := Missing\<rparr>,
                    answer := Some (''Sorry, '' @ fmt time @ '' is not available on '' @
                      fmt date @ ''. We have these times: '' @ join '', '' available_times @
                      ''. Which one do you prefer?'')\<rparr>)
         else
           state\<lparr>answer := Some (''We have these available times for '' @ fmt date @
             '': '' @ join '', '' available_times @ ''. Which one do you prefer?'')\<rparr>)"

text \<open>\<^verbatim>\<open>d[key]\<close>: a missing key raises.\<close>

definition dict_index :: "field \<Rightarrow> error + string option" where
  "dict_index f = (case f of Missing \<Rightarrow> Inl KeyError | Null \<Rightarrow> Inr None | Str s \<Rightarrow> Inr (Some s))"

definition ask_for_information_node :: "BookingState \<Rightarrow> error + BookingState" where
  "ask_for_information_node state =
     (let bd = booking_data state
      in if \<not> truthy (dict_get (service bd)) then
           Inr (state\<lparr>answer :=
             Some ''Hi! What service do you need? We have haircut, beard trim, and styling.''\<rparr>)
         else if \<not> truthy (dict_get (appointment_date bd)) then
           (case dict_index (service bd) of
              Inl e \<Rightarrow> Inl e
            | Inr svc \<Rightarrow>
                Inr (state\<lparr>answer := Some (''Perfect, a '' @ fmt svc @
                  ''. When do you need it? (today, tomorrow, day after tomorrow)'')\<rparr>))
         else
           Inr (state\<lparr>answer := Some ''Could you give me more details about your booking?''\<rparr>))"

definition confirmed_text :: "BookingData \<Rightarrow> string" where
  "confirmed_text bd =
     ''Excellent! Your '' @ fmt (dict_get_default (service bd) ''service'') @
     '' appointment for '' @ fmt (dict_get_default (appointment_date bd) ''date'') @
     '' at '' @ fmt (dict_get_default (appointment_time bd) ''time'') @
     '' is confirmed. See you soon! '' @ party_popper"

definition confirm_booking_node :: "BookingState \<Rightarrow> BookingState" where
  "confirm_booking_node state = state\<lparr>answer := Some (confirmed_text (booking_data state))\<rparr>"

definition respond_user_node :: "BookingState \<Rightarrow> BookingState" where
  "respond_user_node state =
     (let reply =
            (if \<not> truthy (answer state) then
               (if booking_confirmed state then confirmed_text (booking_data state)
                else ''How else can I help you today?'')
             else fmt (answer state))
      in state\<lparr>messages := messages state @ [AIMessage (Text reply)], answer := None\<rparr>)"

subsection \<open>graph.py\<close>

text \<open>The six nodes added to the \<^verbatim>\<open>StateGraph\<close>, by name.\<close>

datatype node =
  DetectIntent | ExtractBookingData | CheckAvailability | ConfirmBooking
  | AskForInformation | RespondUser

definition route_after_extraction :: "BookingState \<Rightarrow> node" where
  "route_after_extraction state =
     (let bd = booking_data state
      in if has_service bd \<and> has_date bd then CheckAvailability else AskForInformation)"

definition route_after_availability :: "BookingState \<Rightarrow> node" where
  "route_after_availability state =
     (let bd = booking_data state; user_confirmed = booking_confirmed state
      in if has_time bd \<and> user_confirmed then ConfirmBooking else RespondUser)"

text \<open>The function registered for each node name by \<^verbatim>\<open>add_node\<close>.\<close>

fun run_node :: "node \<Rightarrow> BookingState \<Rightarrow> error + BookingState" where
  "run_node DetectIntent state = Inr (detect_intent_node state)"
| "run_node ExtractBookingData state = extract_booking_data_node state"
| "run_node CheckAvailability state = Inr (check_availability_node state)"
| "run_node ConfirmBooking state = Inr (confirm_booking_node state)"
| "run_node AskForInformation state = ask_for_information_node state"
| "run_node RespondUser state = Inr (respond_user_node state)"

text \<open>
  The edges: \<^verbatim>\<open>add_edge\<close> and \<^verbatim>\<open>add_conditional_edges\<close>, read on the state the
  node has just returned; \<open>None\<close> is \<^verbatim>\<open>END\<close>.
\<close>

fun successor :: "node \<Rightarrow> BookingState \<Rightarrow> node option" where
  "successor DetectIntent state = Some ExtractBookingData"
| "successor ExtractBookingData state = Some (route_after_extraction state)"
| "successor CheckAvailability state = Some (route_after_availability state)"
| "successor ConfirmBooking state = Some RespondUser"
| "successor AskForInformation state = Some RespondUser"
| "successor RespondUser state = None"

text \<open>
  The compiled graph runs the node it is at, takes the state the node returns as the new
  state (every node returns all keys; the \<^verbatim>\<open>add_messages\<close> reducer of the
  \<^verbatim>\<open>messages\<close> channel keeps the messages it already has and appends the new one, which
  is the list the node returned) and follows the edge. \<open>execute\<close> returns the nodes it
  ran, each with the state it returned; an exception of a node ends the run.
\<close>

fun rank :: "node \<Rightarrow> nat" where
  "rank DetectIntent = 4"
| "rank ExtractBookingData = 3"
| "rank CheckAvailability = 2"
| "rank ConfirmBooking = 1"
| "rank AskForInformation = 1"
| "rank RespondUser = 0"

function execute :: "node \<Rightarrow> BookingState \<Rightarrow> error + (node \<times> BookingState) list" where
  "execute n state =
     (case run_node n state of
        Inl e \<Rightarrow> Inl e
      | Inr state' \<Rightarrow>
          (case successor n state' of
             None \<Rightarrow> Inr [(n, state')]
           | Some n' \<Rightarrow>
               (case execute n' state' of
                  Inl e \<Rightarrow> Inl e
                | Inr run \<Rightarrow> Inr ((n, state') # run))))"
  by pat_completeness auto
termination
proof (relation "measure (\<lambda>(n, state). rank n)")
  show "wf (measure (\<lambda>(n, state). rank n))"
    by simp
next
  fix n :: node and state state' :: BookingState and n' :: node
  assume "successor n state' = Some n'"
  then show "((n', state'), (n, state)) \<in> measure (\<lambda>(n, state). rank n)"
    by (cases n)
      (auto simp: route_after_extraction_def route_after_availability_def Let_def)
qed

declare execute.simps [simp del]

text \<open>\<^verbatim>\<open>app.invoke(state)\<close>: run from \<^verbatim>\<open>START\<close>, return the last state.\<close>

definition invoke :: "BookingState \<Rightarrow> error + BookingState" where
  "invoke state =
     (case execute DetectIntent state of Inl e \<Rightarrow> Inl e | Inr run \<Rightarrow> Inr (snd (last run)))"

text \<open>
  A conversation: the caller adds the new messages (the user's turn) to the state of the
  last traversal and invokes the graph again. It starts from a state with an empty
  booking that is not confirmed.
\<close>

definition empty_booking :: BookingData where
  "empty_booking = \<lparr>service = Missing, appointment_date = Missing, appointment_time = Missing\<rparr>"

definition initial_state :: "BookingState \<Rightarrow> bool" where
  "initial_state state = (booking_data state = empty_booking \<and> \<not> booking_confirmed state)"

inductive reachable :: "BookingState \<Rightarrow> bool" where
  start: "initial_state state \<Longrightarrow> reachable state"
| turn: "reachable state \<Longrightarrow>
         invoke (state\<lparr>messages := messages state @ new\<rparr>) = Inr state' \<Longrightarrow>
         reachable state'"

subsection \<open>Example states\<close>

text \<open>
  A user message as LangGraph Studio sends it, and the state that
  \<^verbatim>\<open>test_booking_conversation\<close> starts from, for a given list of messages.
\<close>

definition studio_message :: "string \<Rightarrow> message" where
  "studio_message u = HumanMessage (Parts [PartDict [(''type'', ''text''), (''text'', u)]])"

definition fresh_state :: "message list \<Rightarrow> BookingState" where
  "fresh_state ms =
     \<lparr>messages = ms, intent = None, booking_data = empty_booking,
      booking_confirmed = False, answer = None\<rparr>"

text \<open>
  The state that \<^verbatim>\<open>test_booking_conversation\<close> of \<^verbatim>\<open>graph.py\<close> passes to
  \<^verbatim>\<open>app.invoke\<close>: one \<^verbatim>\<open>HumanMessage\<close> whose content is a plain string.
\<close>

definition test_booking_conversation_state :: BookingState where
  "test_booking_conversation_state =
     \<lparr>messages = [HumanMessage (Text ''Hi, I want an appointment for a haircut tomorrow'')],
      intent = None, booking_data = empty_booking, booking_confirmed = False,
      answer = None\<rparr>"

text \<open>A booking of a haircut for tomorrow at the given time, with the given last message.\<close>

definition haircut_state :: "string \<Rightarrow> bool \<Rightarrow> message list \<Rightarrow> BookingState" where
  "haircut_state t c ms =
     \<lparr>messages = ms, intent = Some ''book'',
      booking_data =
        \<lparr>service = Str ''haircut'', appointment_date = Str ''tomorrow'',
         appointment_time = Str t\<rparr>,
      booking_confirmed = c, answer = None\<rparr>"

text \<open>
  The state after one traversal from \<open>fresh_state []\<close> with the user message
  \<^verbatim>\<open>haircut tomorrow 12:00 yes\<close>.
\<close>

definition confirmed_no_time_state :: BookingState where
  "confirmed_no_time_state =
     \<lparr>messages =
        [studio_message ''haircut tomorrow 12:00 yes'',
         AIMessage (Text (''Sorry, 12:00 is not available on tomorrow. We have these times: '' @
           ''9:00, 10:00, 11:00, 15:00, 16:00, 17:00. Which one do you prefer?''))],
      intent = Some ''book'',
      booking_data =
        \<lparr>service = Str ''haircut'', appointment_date = Str ''tomorrow'',
         appointment_time = Missing\<rparr>,
      booking_confirmed = True, answer = None\<rparr>"

text \<open>
  The words of an utterance: its maximal runs of word characters. Used only to say that
  an example utterance has no confirmation word standing alone.
\<close>

fun words_from :: "string \<Rightarrow> string \<Rightarrow> string list" where
  "words_from acc [] = (if acc = [] then [] else [acc])"
| "words_from acc (c # cs) =
     (if is_word c then words_from (acc @ [c]) cs
      else (if acc = [] then [] else [acc]) @ words_from [] cs)"

definition words_of :: "string \<Rightarrow> string list" where
  "words_of s = words_from [] s"

section \<open>Properties\<close>

subsection \<open>Python primitives\<close>

text \<open>\<open>is_in\<close> is the substring test.\<close>

lemma is_in_iff: "is_in sub s \<longleftrightarrow> (\<exists>p q. s = p @ sub @ q)"
proof (induction s)
  case Nil
  then show ?case by auto
next
  case (Cons c cs)
  have here: "take (length sub) (c # cs) = sub \<longleftrightarrow> (\<exists>q. c # cs = sub @ q)"
    by (metis append_eq_conv_conj append_take_drop_id)
  have split: "(\<exists>p q. c # cs = p @ sub @ q) \<longleftrightarrow>
      (\<exists>q. c # cs = sub @ q) \<or> (\<exists>p q. cs = p @ sub @ q)"
  proof
    assume "\<exists>p q. c # cs = p @ sub @ q"
    then obtain p q where pq: "c # cs = p @ sub @ q" by blast
    show "(\<exists>q. c # cs = sub @ q) \<or> (\<exists>p q. cs = p @ sub @ q)"
    proof (cases p)
      case Nil
      with pq show ?thesis by auto
    next
      case (Cons a p')
      with pq have "cs = p' @ sub @ q" by simp
      then show ?thesis by blast
    qed
  next
    assume "(\<exists>q. c # cs = sub @ q) \<or> (\<exists>p q. cs = p @ sub @ q)"
    then show "\<exists>p q. c # cs = p @ sub @ q"
    proof
      assume "\<exists>q. c # cs = sub @ q"
      then show ?thesis by (metis append_Nil)
    next
      assume "\<exists>p q. cs = p @ sub @ q"
      then obtain p q where "cs = p @ sub @ q" by blast
      then have "c # cs = (c # p) @ sub @ q" by simp
      then show ?thesis by blast
    qed
  qed
  from here split Cons.IH show ?case by simp
qed

lemma affirmative_iff:
  "affirmative m \<longleftrightarrow>
     (\<exists>w \<in> {''yes'', ''perfect'', ''ok'', ''confirm''}. \<exists>p q. m = p @ w @ q)"
  by (simp add: affirmative_def confirmation_words_def is_in_iff)

lemma join_available_times:
  "join '', '' available_times = ''9:00, 10:00, 11:00, 15:00, 16:00, 17:00''"
  by (simp add: available_times_def)

subsection \<open>The extraction node\<close>

lemma detect_service_nonempty: "detect_service m = Some v \<Longrightarrow> v \<noteq> []"
  by (auto simp: detect_service_def split: if_splits)

lemma detect_date_nonempty: "detect_date m = Some v \<Longrightarrow> v \<noteq> []"
  by (auto simp: detect_date_def split: if_splits)

lemma has_service_merge: "has_service bd \<Longrightarrow> has_service (merge_booking m bd)"
  by (cases "detect_service m")
    (auto simp: has_service_def merge_booking_def assign_def dict_get_def truthy_def
      dest: detect_service_nonempty)

lemma has_date_merge: "has_date bd \<Longrightarrow> has_date (merge_booking m bd)"
  by (cases "detect_date m")
    (auto simp: has_date_def merge_booking_def assign_def dict_get_def truthy_def
      dest: detect_date_nonempty)

lemma assign_assign: "assign v (assign v f) = assign v f"
  by (cases v) (simp_all add: assign_def)

lemma assign_known: "(\<And>s. v = Some s \<Longrightarrow> f = Str s) \<Longrightarrow> assign v f = f"
  by (cases v) (simp_all add: assign_def)

lemma merge_booking_idem: "merge_booking m (merge_booking m bd) = merge_booking m bd"
  by (simp add: merge_booking_def assign_assign)

lemma merge_booking_known:
  assumes "\<And>v. detect_service m = Some v \<Longrightarrow> service bd = Str v"
    and "\<And>v. detect_date m = Some v \<Longrightarrow> appointment_date bd = Str v"
    and "\<And>v. detect_time m = Some v \<Longrightarrow> appointment_time bd = Str v"
  shows "merge_booking m bd = bd"
  using assms by (simp add: merge_booking_def assign_known)

text \<open>What the node returns when the last message has a text where the node reads it.\<close>

lemma extract_with_text:
  assumes "messages state \<noteq> []"
    and "first_text (content_of (last (messages state))) = Inr utterance"
  shows "extract_booking_data_node state =
           Inr (state\<lparr>booking_data := merge_booking (lower utterance) (booking_data state),
                      booking_confirmed :=
                        (booking_confirmed state \<or>
                         has_service (merge_booking (lower utterance) (booking_data state)) \<and>
                         has_date (merge_booking (lower utterance) (booking_data state)) \<and>
                         has_time (merge_booking (lower utterance) (booking_data state)) \<and>
                         affirmative (lower utterance))\<rparr>)"
  using assms by (auto simp: extract_booking_data_node_def Let_def)

lemma extract_messages:
  "extract_booking_data_node state = Inr state' \<Longrightarrow> messages state' = messages state"
  by (auto simp: extract_booking_data_node_def Let_def split: if_splits sum.splits)

lemma extract_keeps_gate:
  assumes "extract_booking_data_node state = Inr state'"
    and "booking_confirmed state \<longrightarrow>
           has_service (booking_data state) \<and> has_date (booking_data state)"
  shows "booking_confirmed state' \<longrightarrow>
           has_service (booking_data state') \<and> has_date (booking_data state')"
  using assms
  by (auto simp: extract_booking_data_node_def Let_def has_service_merge has_date_merge
      split: if_splits sum.splits)

subsection \<open>The other nodes\<close>

lemma check_availability_frame:
  "messages (check_availability_node state) = messages state"
  "booking_confirmed (check_availability_node state) = booking_confirmed state"
  "has_service (booking_data (check_availability_node state)) = has_service (booking_data state)"
  "has_date (booking_data (check_availability_node state)) = has_date (booking_data state)"
  by (simp_all add: check_availability_node_def Let_def has_service_def has_date_def)

lemma ask_for_information_returns:
  "\<exists>reply. ask_for_information_node state = Inr (state\<lparr>answer := Some reply\<rparr>)"
  by (cases "service (booking_data state)")
    (auto simp: ask_for_information_node_def Let_def dict_get_def dict_index_def truthy_def)

lemma respond_user_messages:
  "messages (respond_user_node state) =
     messages state @
       [AIMessage (Text
          (if truthy (answer state) then fmt (answer state)
           else if booking_confirmed state then confirmed_text (booking_data state)
           else ''How else can I help you today?''))]"
  by (simp add: respond_user_node_def Let_def)

subsection \<open>The graph\<close>

text \<open>The run from each node, one unfolding of \<open>execute\<close> at a time.\<close>

lemma execute_respond_user:
  "execute RespondUser state = Inr [(RespondUser, respond_user_node state)]"
  by (simp add: execute.simps [of RespondUser])

lemma execute_confirm_booking:
  "execute ConfirmBooking state =
     Inr [(ConfirmBooking, confirm_booking_node state),
          (RespondUser, respond_user_node (confirm_booking_node state))]"
  by (simp add: execute.simps [of ConfirmBooking] execute_respond_user)

lemma execute_ask_for_information:
  "execute AskForInformation state =
     (case ask_for_information_node state of
        Inl e \<Rightarrow> Inl e
      | Inr state' \<Rightarrow> Inr [(AskForInformation, state'), (RespondUser, respond_user_node state')])"
  by (simp add: execute.simps [of AskForInformation] execute_respond_user split: sum.splits)

lemma execute_check_availability:
  "execute CheckAvailability state =
     (let state' = check_availability_node state
      in if has_time (booking_data state') \<and> booking_confirmed state'
         then Inr [(CheckAvailability, state'), (ConfirmBooking, confirm_booking_node state'),
                   (RespondUser, respond_user_node (confirm_booking_node state'))]
         else Inr [(CheckAvailability, state'), (RespondUser, respond_user_node state')])"
  by (simp add: execute.simps [of CheckAvailability] execute_respond_user
      execute_confirm_booking route_after_availability_def Let_def)

lemma execute_extract_booking_data:
  "execute ExtractBookingData state =
     (case extract_booking_data_node state of
        Inl e \<Rightarrow> Inl e
      | Inr state' \<Rightarrow>
          (case execute (route_after_extraction state') state' of
             Inl e \<Rightarrow> Inl e
           | Inr run \<Rightarrow> Inr ((ExtractBookingData, state') # run)))"
  by (simp add: execute.simps [of ExtractBookingData] split: sum.splits)

lemma execute_detect_intent:
  "execute DetectIntent state =
     (case execute ExtractBookingData (detect_intent_node state) of
        Inl e \<Rightarrow> Inl e
      | Inr run \<Rightarrow> Inr ((DetectIntent, detect_intent_node state) # run))"
  by (simp add: execute.simps [of DetectIntent] split: sum.splits)

text \<open>A whole traversal: the three paths through the graph.\<close>

lemma execute_from_start:
  "execute DetectIntent state =
     (case extract_booking_data_node (detect_intent_node state) of
        Inl e \<Rightarrow> Inl e
      | Inr s2 \<Rightarrow>
          (if has_service (booking_data s2) \<and> has_date (booking_data s2) then
             (let s3 = check_availability_node s2
              in if has_time (booking_data s3) \<and> booking_confirmed s3
                 then Inr [(DetectIntent, detect_intent_node state), (ExtractBookingData, s2),
                           (CheckAvailability, s3), (ConfirmBooking, confirm_booking_node s3),
                           (RespondUser, respond_user_node (confirm_booking_node s3))]
                 else Inr [(DetectIntent, detect_intent_node state), (ExtractBookingData, s2),
                           (CheckAvailability, s3), (RespondUser, respond_user_node s3)])
           else
             (case ask_for_information_node s2 of
                Inl e \<Rightarrow> Inl e
              | Inr s3 \<Rightarrow>
                  Inr [(DetectIntent, detect_intent_node state), (ExtractBookingData, s2),
                       (AskForInformation, s3), (RespondUser, respond_user_node s3)])))"
  by (simp add: execute_detect_intent execute_extract_booking_data
      execute_check_availability execute_ask_for_information route_after_extraction_def
      Let_def split: sum.splits)

lemma invoke_cases:
  assumes "invoke state = Inr state'"
  shows "\<exists>s2 s3. extract_booking_data_node (detect_intent_node state) = Inr s2 \<and>
           state' = respond_user_node s3 \<and>
           (s3 = check_availability_node s2 \<or>
            s3 = confirm_booking_node (check_availability_node s2) \<or>
            (\<exists>reply. s3 = s2\<lparr>answer := Some reply\<rparr>))"
proof -
  from assms obtain s2 where s2: "extract_booking_data_node (detect_intent_node state) = Inr s2"
    by (auto simp: invoke_def execute_from_start split: sum.splits)
  obtain reply where "ask_for_information_node s2 = Inr (s2\<lparr>answer := Some reply\<rparr>)"
    using ask_for_information_returns by blast
  with assms s2 show ?thesis
    by (auto simp: invoke_def execute_from_start Let_def split: if_splits)
qed

lemma invoke_returns:
  assumes "messages state = [] \<or>
           (\<exists>utterance. first_text (content_of (last (messages state))) = Inr utterance)"
  shows "\<exists>state'. invoke state = Inr state'"
proof -
  have "\<exists>s2. extract_booking_data_node (detect_intent_node state) = Inr s2"
  proof (cases "messages state = []")
    case True
    then show ?thesis
      by (simp add: extract_booking_data_node_def detect_intent_node_def)
  next
    case False
    with assms obtain utterance
      where "first_text (content_of (last (messages state))) = Inr utterance"
      by blast
    with False show ?thesis
      by (simp add: extract_booking_data_node_def detect_intent_node_def Let_def)
  qed
  then obtain s2 where s2: "extract_booking_data_node (detect_intent_node state) = Inr s2"
    by blast
  obtain reply where "ask_for_information_node s2 = Inr (s2\<lparr>answer := Some reply\<rparr>)"
    using ask_for_information_returns by blast
  with s2 show ?thesis
    by (simp add: invoke_def execute_from_start Let_def)
qed

lemma invoke_keeps_gate:
  assumes "invoke state = Inr state'"
    and "booking_confirmed state \<longrightarrow>
           has_service (booking_data state) \<and> has_date (booking_data state)"
  shows "booking_confirmed state' \<longrightarrow>
           has_service (booking_data state') \<and> has_date (booking_data state')"
proof -
  from assms(1) obtain s2 s3
    where s2: "extract_booking_data_node (detect_intent_node state) = Inr s2"
      and s': "state' = respond_user_node s3"
      and s3: "s3 = check_availability_node s2 \<or>
               s3 = confirm_booking_node (check_availability_node s2) \<or>
               (\<exists>reply. s3 = s2\<lparr>answer := Some reply\<rparr>)"
    using invoke_cases by blast
  from assms(2) have "booking_confirmed (detect_intent_node state) \<longrightarrow>
      has_service (booking_data (detect_intent_node state)) \<and>
      has_date (booking_data (detect_intent_node state))"
    by (simp add: detect_intent_node_def)
  with s2 have "booking_confirmed s2 \<longrightarrow>
      has_service (booking_data s2) \<and> has_date (booking_data s2)"
    by (rule extract_keeps_gate)
  with s3 have "booking_confirmed s3 \<longrightarrow>
      has_service (booking_data s3) \<and> has_date (booking_data s3)"
    by (auto simp: check_availability_frame confirm_booking_node_def)
  then show ?thesis
    by (simp add: s' respond_user_node_def Let_def)
qed

lemma confirmed_no_time_reachable: "reachable confirmed_no_time_state"
proof -
  have "initial_state (fresh_state [])"
    by (simp add: initial_state_def fresh_state_def)
  then have "reachable (fresh_state [])"
    by (rule reachable.start)
  moreover have "invoke ((fresh_state [])\<lparr>messages := messages (fresh_state []) @
      [studio_message ''haircut tomorrow 12:00 yes'']\<rparr>) = Inr confirmed_no_time_state"
    by code_simp
  ultimately show ?thesis
    by (rule reachable.turn)
qed

subsection \<open>Claims\<close>

text \<open>
  C1, as the code has it. When the Availability Check node runs on a state whose
  \<^verbatim>\<open>appointment_time\<close> is present (a non-empty string) and not in the list of
  available times, it removes \<^verbatim>\<open>appointment_time\<close> from the booking and sets the reply
  to the sentence that names the refused time and lists the six available times.
  Nothing else changes: \<^verbatim>\<open>booking_confirmed\<close> keeps the value it had.
\<close>

theorem check_availability_unavailable:
  assumes "appointment_time (booking_data state) = Str t" and "t \<noteq> []"
    and "t \<notin> set available_times"
  shows "check_availability_node state =
           state\<lparr>booking_data := (booking_data state)\<lparr>appointment_time := Missing\<rparr>,
                 answer := Some (''Sorry, '' @ t @ '' is not available on '' @
                   fmt (dict_get_default (appointment_date (booking_data state)) ''date'') @
                   ''. We have these times: 9:00, 10:00, 11:00, 15:00, 16:00, 17:00'' @
                   ''. Which one do you prefer?'')\<rparr> \<and>
         \<not> has_time (booking_data (check_availability_node state)) \<and>
         booking_confirmed (check_availability_node state) = booking_confirmed state"
  using assms
  by (simp add: check_availability_node_def Let_def dict_get_def truthy_def fmt_def
      join_available_times has_time_def)

text \<open>C1, witness: a confirmed haircut for tomorrow at 12:00, which is not available.\<close>

theorem check_availability_unavailable_witness:
  "appointment_time (booking_data (haircut_state ''12:00'' True [])) = Str ''12:00'' \<and>
   ''12:00'' \<notin> set available_times \<and>
   appointment_time (booking_data (check_availability_node (haircut_state ''12:00'' True []))) =
     Missing \<and>
   answer (check_availability_node (haircut_state ''12:00'' True [])) =
     Some (''Sorry, 12:00 is not available on tomorrow. We have these times: '' @
       ''9:00, 10:00, 11:00, 15:00, 16:00, 17:00. Which one do you prefer?'')"
  using check_availability_unavailable [of "haircut_state ''12:00'' True []" "''12:00''"]
  by (simp add: haircut_state_def available_times_def dict_get_default_def fmt_def)

text \<open>
  C1, counterexample to the claim as stated: the state that Data Extraction returns on
  the first message \<^verbatim>\<open>haircut tomorrow 12:00 yes\<close>. Its time is present and not
  available, and the node leaves \<^verbatim>\<open>booking_confirmed\<close> true.
\<close>

theorem check_availability_confirmed_counterexample:
  "has_time (booking_data
     (haircut_state ''12:00'' True [studio_message ''haircut tomorrow 12:00 yes''])) \<and>
   fmt (dict_get (appointment_time (booking_data
     (haircut_state ''12:00'' True [studio_message ''haircut tomorrow 12:00 yes''])))) \<notin>
     set available_times \<and>
   booking_confirmed (check_availability_node
     (haircut_state ''12:00'' True [studio_message ''haircut tomorrow 12:00 yes'']))"
  by (simp add: haircut_state_def check_availability_node_def Let_def has_time_def
      dict_get_def truthy_def fmt_def available_times_def)

text \<open>
  C2, as the code has it. In every state reachable from a state with an empty booking
  and \<^verbatim>\<open>booking_confirmed = False\<close> by any sequence of traversals, each after any new
  messages, \<^verbatim>\<open>booking_confirmed\<close> is never true while the service or the date is absent.
\<close>

theorem reachable_confirmed_has_service_and_date:
  assumes "reachable state" and "booking_confirmed state"
  shows "has_service (booking_data state) \<and> has_date (booking_data state)"
proof -
  from assms(1) have "booking_confirmed state \<longrightarrow>
      has_service (booking_data state) \<and> has_date (booking_data state)"
  proof (induction rule: reachable.induct)
    case (start state)
    then show ?case by (simp add: initial_state_def)
  next
    case (turn state new state')
    from turn.IH have "booking_confirmed (state\<lparr>messages := messages state @ new\<rparr>) \<longrightarrow>
        has_service (booking_data (state\<lparr>messages := messages state @ new\<rparr>)) \<and>
        has_date (booking_data (state\<lparr>messages := messages state @ new\<rparr>))"
      by simp
    with turn.hyps(2) show ?case by (rule invoke_keeps_gate)
  qed
  with assms(2) show ?thesis by simp
qed

text \<open>C2, witness: a reachable state that is confirmed.\<close>

theorem reachable_confirmed_has_service_and_date_witness:
  "reachable confirmed_no_time_state \<and> booking_confirmed confirmed_no_time_state \<and>
   has_service (booking_data confirmed_no_time_state) \<and>
   has_date (booking_data confirmed_no_time_state)"
proof -
  have c: "booking_confirmed confirmed_no_time_state"
    by (simp add: confirmed_no_time_state_def)
  from reachable_confirmed_has_service_and_date [OF confirmed_no_time_reachable c]
    confirmed_no_time_reachable c
  show ?thesis by simp
qed

text \<open>
  C2, counterexample to the claim as stated: after one traversal on the message
  \<^verbatim>\<open>haircut tomorrow 12:00 yes\<close> the booking is confirmed and has no time. The
  extraction confirms (all three fields are present and the message contains
  \<^verbatim>\<open>yes\<close>), then the availability check removes the time 12:00.
\<close>

theorem reachable_confirmed_without_time_counterexample:
  "reachable confirmed_no_time_state \<and> booking_confirmed confirmed_no_time_state \<and>
   \<not> has_time (booking_data confirmed_no_time_state)"
  using confirmed_no_time_reachable
  by (simp add: confirmed_no_time_state_def has_time_def dict_get_def truthy_def)

text \<open>
  C3. For every state whose last message has the text \<open>utterance\<close>, the Data Extraction
  node returns a state whose booking is the merge of this turn's fields into the old
  booking. It turns \<^verbatim>\<open>booking_confirmed\<close> from false to true only when service, date and
  time are all present in the merged booking and the lowercased utterance contains a
  confirmation word; when that condition fails, \<^verbatim>\<open>booking_confirmed\<close> keeps its value;
  and it never turns \<^verbatim>\<open>booking_confirmed\<close> from true to false.
\<close>

theorem extract_confirmation_gate:
  assumes "messages state \<noteq> []"
    and "first_text (content_of (last (messages state))) = Inr utterance"
  shows "\<exists>state'. extract_booking_data_node state = Inr state' \<and>
           booking_data state' = merge_booking (lower utterance) (booking_data state) \<and>
           (\<not> booking_confirmed state \<and> booking_confirmed state' \<longrightarrow>
              has_service (booking_data state') \<and> has_date (booking_data state') \<and>
              has_time (booking_data state') \<and> affirmative (lower utterance)) \<and>
           (\<not> (has_service (booking_data state') \<and> has_date (booking_data state') \<and>
               has_time (booking_data state') \<and> affirmative (lower utterance)) \<longrightarrow>
              booking_confirmed state' = booking_confirmed state) \<and>
           (booking_confirmed state \<longrightarrow> booking_confirmed state')"
  by (auto simp: extract_with_text [OF assms])

text \<open>C3, witness: the user answers \<^verbatim>\<open>yes\<close> to a complete booking.\<close>

theorem extract_confirmation_gate_witness:
  "messages (haircut_state ''10:00'' False [studio_message ''yes'']) \<noteq> [] \<and>
   first_text (content_of (last (messages
     (haircut_state ''10:00'' False [studio_message ''yes''])))) = Inr ''yes'' \<and>
   extract_booking_data_node (haircut_state ''10:00'' False [studio_message ''yes'']) =
     Inr (haircut_state ''10:00'' True [studio_message ''yes''])"
proof -
  have m: "messages (haircut_state ''10:00'' False [studio_message ''yes'']) \<noteq> []"
    by (simp add: haircut_state_def)
  have t: "first_text (content_of (last (messages
      (haircut_state ''10:00'' False [studio_message ''yes''])))) = Inr ''yes''"
    by (simp add: haircut_state_def studio_message_def content_of_def first_text_def)
  have e: "extract_booking_data_node (haircut_state ''10:00'' False [studio_message ''yes'']) =
      Inr (haircut_state ''10:00'' True [studio_message ''yes''])"
    by code_simp
  from extract_confirmation_gate [OF m t] m t e show ?thesis by simp
qed

text \<open>
  C4. The first router selects Availability Check exactly when the booking's service
  and date are both present, and Ask-For-Information otherwise; replacing
  \<^verbatim>\<open>appointment_time\<close> and \<^verbatim>\<open>booking_confirmed\<close> by any values does not change its
  choice.
\<close>

theorem route_after_extraction_decision:
  "(route_after_extraction state = CheckAvailability \<longleftrightarrow>
      has_service (booking_data state) \<and> has_date (booking_data state)) \<and>
   (route_after_extraction state = AskForInformation \<longleftrightarrow>
      \<not> (has_service (booking_data state) \<and> has_date (booking_data state))) \<and>
   route_after_extraction
     (state\<lparr>booking_data := (booking_data state)\<lparr>appointment_time := t\<rparr>,
            booking_confirmed := c\<rparr>) = route_after_extraction state"
  by (auto simp: route_after_extraction_def Let_def has_service_def has_date_def)

text \<open>C4, witness: a haircut for tomorrow goes to the availability check.\<close>

theorem route_after_extraction_decision_witness:
  "has_service (booking_data (haircut_state ''10:00'' False [])) \<and>
   has_date (booking_data (haircut_state ''10:00'' False [])) \<and>
   route_after_extraction (haircut_state ''10:00'' False []) = CheckAvailability \<and>
   route_after_extraction (fresh_state []) = AskForInformation"
  using route_after_extraction_decision [of "haircut_state ''10:00'' False []"]
    route_after_extraction_decision [of "fresh_state []"]
  by (simp add: haircut_state_def fresh_state_def empty_booking_def has_service_def
      has_date_def dict_get_def truthy_def)

text \<open>
  C5. The second router selects Confirm Booking exactly when \<^verbatim>\<open>appointment_time\<close> is
  present and \<^verbatim>\<open>booking_confirmed\<close> is true, and Respond-to-User otherwise. A traversal
  that runs Confirm Booking is the run Intent Detection, Data Extraction, Availability
  Check, Confirm Booking, Respond-to-User, and in the state that Availability Check
  returned, the one the second router reads, both conditions hold.
\<close>

theorem route_after_availability_decision:
  "(route_after_availability state = ConfirmBooking \<longleftrightarrow>
      has_time (booking_data state) \<and> booking_confirmed state) \<and>
   (route_after_availability state = RespondUser \<longleftrightarrow>
      \<not> (has_time (booking_data state) \<and> booking_confirmed state)) \<and>
   (\<forall>run. execute DetectIntent start = Inr run \<and> ConfirmBooking \<in> fst ` set run \<longrightarrow>
      (\<exists>s1 s2 s3 s4 s5.
         run = [(DetectIntent, s1), (ExtractBookingData, s2), (CheckAvailability, s3),
                (ConfirmBooking, s4), (RespondUser, s5)] \<and>
         route_after_availability s3 = ConfirmBooking \<and>
         has_time (booking_data s3) \<and> booking_confirmed s3))"
proof (intro conjI allI impI)
  show "route_after_availability state = ConfirmBooking \<longleftrightarrow>
      has_time (booking_data state) \<and> booking_confirmed state"
    by (simp add: route_after_availability_def Let_def)
next
  show "route_after_availability state = RespondUser \<longleftrightarrow>
      \<not> (has_time (booking_data state) \<and> booking_confirmed state)"
    by (simp add: route_after_availability_def Let_def)
next
  fix run
  assume a: "execute DetectIntent start = Inr run \<and> ConfirmBooking \<in> fst ` set run"
  then obtain s2 where s2: "extract_booking_data_node (detect_intent_node start) = Inr s2"
    by (auto simp: execute_from_start split: sum.splits)
  define s3 where "s3 = check_availability_node s2"
  from a s2 have "has_time (booking_data s3) \<and> booking_confirmed s3 \<and>
      run = [(DetectIntent, detect_intent_node start), (ExtractBookingData, s2),
             (CheckAvailability, s3), (ConfirmBooking, confirm_booking_node s3),
             (RespondUser, respond_user_node (confirm_booking_node s3))]"
    by (auto simp: execute_from_start Let_def s3_def split: sum.splits if_splits)
  then show "\<exists>s1 s2 s3 s4 s5.
         run = [(DetectIntent, s1), (ExtractBookingData, s2), (CheckAvailability, s3),
                (ConfirmBooking, s4), (RespondUser, s5)] \<and>
         route_after_availability s3 = ConfirmBooking \<and>
         has_time (booking_data s3) \<and> booking_confirmed s3"
    by (simp add: route_after_availability_def Let_def)
qed

text \<open>
  C5, witness: the user answers \<^verbatim>\<open>yes\<close> to a haircut for tomorrow at 10:00; the
  traversal runs Confirm Booking.
\<close>

theorem route_after_availability_decision_witness:
  "\<exists>run. execute DetectIntent (haircut_state ''10:00'' False [studio_message ''yes'']) = Inr run \<and>
     ConfirmBooking \<in> fst ` set run \<and>
     (\<exists>s3. (CheckAvailability, s3) \<in> set run \<and> route_after_availability s3 = ConfirmBooking \<and>
        has_time (booking_data s3) \<and> booking_confirmed s3)"
proof -
  have "map_sum id (map fst)
      (execute DetectIntent (haircut_state ''10:00'' False [studio_message ''yes''])) =
      Inr [DetectIntent, ExtractBookingData, CheckAvailability, ConfirmBooking, RespondUser]"
    by code_simp
  then obtain run
    where run: "execute DetectIntent (haircut_state ''10:00'' False [studio_message ''yes'']) =
        Inr run"
      and nodes: "map fst run =
        [DetectIntent, ExtractBookingData, CheckAvailability, ConfirmBooking, RespondUser]"
    by (cases "execute DetectIntent (haircut_state ''10:00'' False [studio_message ''yes''])")
      auto
  from nodes have "set (map fst run) =
      set [DetectIntent, ExtractBookingData, CheckAvailability, ConfirmBooking, RespondUser]"
    by simp
  then have c: "ConfirmBooking \<in> fst ` set run"
    by simp
  from route_after_availability_decision
    [of "fresh_state []" "haircut_state ''10:00'' False [studio_message ''yes'']"] run c
  obtain s1 s2 s3 s4 s5
    where "run = [(DetectIntent, s1), (ExtractBookingData, s2), (CheckAvailability, s3),
                  (ConfirmBooking, s4), (RespondUser, s5)]"
      and "route_after_availability s3 = ConfirmBooking"
      and "has_time (booking_data s3)" and "booking_confirmed s3"
    by blast
  with run c show ?thesis by auto
qed

text \<open>
  Traversals that return. The Respond-to-User node clears \<^verbatim>\<open>answer\<close> and appends one
  bot message to the messages it was given: the text of \<^verbatim>\<open>answer\<close> when that is
  neither \<^verbatim>\<open>None\<close> nor empty, else the confirmation message when the booking is
  confirmed, else the generic offer of help. A traversal that returns a state returns
  the input's messages, in their order, followed by exactly one bot message, and with
  \<^verbatim>\<open>answer\<close> cleared; and a traversal returns a state whenever the list of messages is
  empty or its last message has a text where the extraction reads it.
\<close>

lemma returning_traversal_appends_one_bot_turn:
  "answer (respond_user_node state) = None \<and>
   messages (respond_user_node state) =
     messages state @
       [AIMessage (Text
          (if truthy (answer state) then fmt (answer state)
           else if booking_confirmed state then
             ''Excellent! Your '' @
             fmt (dict_get_default (service (booking_data state)) ''service'') @
             '' appointment for '' @
             fmt (dict_get_default (appointment_date (booking_data state)) ''date'') @
             '' at '' @
             fmt (dict_get_default (appointment_time (booking_data state)) ''time'') @
             '' is confirmed. See you soon! '' @ [CHR 0xF0, CHR 0x9F, CHR 0x8E, CHR 0x89]
           else ''How else can I help you today?''))] \<and>
   (\<forall>state'. invoke state = Inr state' \<longrightarrow>
      answer state' = None \<and>
      (\<exists>reply. messages state' = messages state @ [AIMessage (Text reply)])) \<and>
   (messages state = [] \<or>
    (\<exists>utterance. first_text (content_of (last (messages state))) = Inr utterance) \<longrightarrow>
      (\<exists>state'. invoke state = Inr state'))"
proof (intro conjI allI impI)
  show "answer (respond_user_node state) = None"
    by (simp add: respond_user_node_def Let_def)
next
  show "messages (respond_user_node state) =
     messages state @
       [AIMessage (Text
          (if truthy (answer state) then fmt (answer state)
           else if booking_confirmed state then
             ''Excellent! Your '' @
             fmt (dict_get_default (service (booking_data state)) ''service'') @
             '' appointment for '' @
             fmt (dict_get_default (appointment_date (booking_data state)) ''date'') @
             '' at '' @
             fmt (dict_get_default (appointment_time (booking_data state)) ''time'') @
             '' is confirmed. See you soon! '' @ [CHR 0xF0, CHR 0x9F, CHR 0x8E, CHR 0x89]
           else ''How else can I help you today?''))]"
    by (simp add: respond_user_messages confirmed_text_def party_popper_def)
next
  fix state'
  assume "invoke state = Inr state'"
  then obtain s2 s3 where s2: "extract_booking_data_node (detect_intent_node state) = Inr s2"
    and s': "state' = respond_user_node s3"
    and s3: "s3 = check_availability_node s2 \<or>
            s3 = confirm_booking_node (check_availability_node s2) \<or>
            (\<exists>reply. s3 = s2\<lparr>answer := Some reply\<rparr>)"
    using invoke_cases by blast
  show "answer state' = None"
    by (simp add: s' respond_user_node_def Let_def)
  from extract_messages [OF s2] have "messages s2 = messages state"
    by (simp add: detect_intent_node_def)
  with s3 have "messages s3 = messages state"
    by (auto simp: check_availability_frame confirm_booking_node_def)
  then show "\<exists>reply. messages state' = messages state @ [AIMessage (Text reply)]"
    by (simp add: s' respond_user_messages)
next
  assume "messages state = [] \<or>
    (\<exists>utterance. first_text (content_of (last (messages state))) = Inr utterance)"
  then show "\<exists>state'. invoke state = Inr state'"
    by (rule invoke_returns)
qed

text \<open>
  C6 asks that one traversal appends exactly one bot turn for every input state. The
  code does not do so on the state that its own \<^verbatim>\<open>test_booking_conversation\<close> invokes
  the graph on. The content of that message is a plain string, so in the Data Extraction
  node \<^verbatim>\<open>content[0]\<close> is the one-character string \<^verbatim>\<open>H\<close> and \<^verbatim>\<open>["text"]\<close> on it
  raises \<^verbatim>\<open>TypeError\<close>: the traversal ends there, Respond-to-User never runs, and no
  state with a bot turn is returned.
\<close>

theorem test_booking_conversation_raises:
  "messages test_booking_conversation_state =
     [HumanMessage (Text ''Hi, I want an appointment for a haircut tomorrow'')] \<and>
   extract_booking_data_node (detect_intent_node test_booking_conversation_state) =
     Inl TypeError \<and>
   execute DetectIntent test_booking_conversation_state = Inl TypeError \<and>
   invoke test_booking_conversation_state = Inl TypeError"
proof -
  have e: "extract_booking_data_node (detect_intent_node test_booking_conversation_state) =
      Inl TypeError"
    by (simp add: extract_booking_data_node_def detect_intent_node_def
        test_booking_conversation_state_def content_of_def first_text_def)
  then have "execute DetectIntent test_booking_conversation_state = Inl TypeError"
    by (simp add: execute_from_start)
  with e show ?thesis
    by (simp add: invoke_def test_booking_conversation_state_def)
qed

text \<open>
  C7. For every state whose last message has the text \<open>utterance\<close>, a second run of the
  Data Extraction node on the state the first run returned returns that state again: the
  booking after two runs is the booking after one. When every field the utterance
  yields is already set to the value it yields, the first run leaves the booking as it
  was.
\<close>

theorem extract_idempotent:
  assumes "messages state \<noteq> []"
    and "first_text (content_of (last (messages state))) = Inr utterance"
  shows "\<exists>state1. extract_booking_data_node state = Inr state1 \<and>
           extract_booking_data_node state1 = Inr state1 \<and>
           ((\<forall>v. detect_service (lower utterance) = Some v \<longrightarrow>
                 service (booking_data state) = Str v) \<and>
            (\<forall>v. detect_date (lower utterance) = Some v \<longrightarrow>
                 appointment_date (booking_data state) = Str v) \<and>
            (\<forall>v. detect_time (lower utterance) = Some v \<longrightarrow>
                 appointment_time (booking_data state) = Str v) \<longrightarrow>
            booking_data state1 = booking_data state)"
proof -
  define state1 where "state1 =
    state\<lparr>booking_data := merge_booking (lower utterance) (booking_data state),
          booking_confirmed :=
            (booking_confirmed state \<or>
             has_service (merge_booking (lower utterance) (booking_data state)) \<and>
             has_date (merge_booking (lower utterance) (booking_data state)) \<and>
             has_time (merge_booking (lower utterance) (booking_data state)) \<and>
             affirmative (lower utterance))\<rparr>"
  have once: "extract_booking_data_node state = Inr state1"
    unfolding state1_def by (rule extract_with_text [OF assms])
  have m1: "messages state1 \<noteq> []"
    and t1: "first_text (content_of (last (messages state1))) = Inr utterance"
    using assms by (simp_all add: state1_def)
  have twice: "extract_booking_data_node state1 = Inr state1"
    by (subst extract_with_text [OF m1 t1]) (auto simp: state1_def merge_booking_idem)
  have known: "(\<forall>v. detect_service (lower utterance) = Some v \<longrightarrow>
                 service (booking_data state) = Str v) \<and>
            (\<forall>v. detect_date (lower utterance) = Some v \<longrightarrow>
                 appointment_date (booking_data state) = Str v) \<and>
            (\<forall>v. detect_time (lower utterance) = Some v \<longrightarrow>
                 appointment_time (booking_data state) = Str v) \<longrightarrow>
            booking_data state1 = booking_data state"
    by (simp add: state1_def merge_booking_known)
  from once twice known show ?thesis by blast
qed

text \<open>
  C7, witness: the booking already holds what the utterance names; the node returns the
  state it was given, once and twice.
\<close>

theorem extract_idempotent_witness:
  "messages (haircut_state ''10:00'' False [studio_message ''a haircut tomorrow at 10:00''])
     \<noteq> [] \<and>
   first_text (content_of (last (messages
     (haircut_state ''10:00'' False [studio_message ''a haircut tomorrow at 10:00''])))) =
     Inr ''a haircut tomorrow at 10:00'' \<and>
   extract_booking_data_node
     (haircut_state ''10:00'' False [studio_message ''a haircut tomorrow at 10:00'']) =
     Inr (haircut_state ''10:00'' False [studio_message ''a haircut tomorrow at 10:00''])"
proof -
  have m: "messages
      (haircut_state ''10:00'' False [studio_message ''a haircut tomorrow at 10:00'']) \<noteq> []"
    by (simp add: haircut_state_def)
  have t: "first_text (content_of (last (messages
      (haircut_state ''10:00'' False [studio_message ''a haircut tomorrow at 10:00''])))) =
      Inr ''a haircut tomorrow at 10:00''"
    by (simp add: haircut_state_def studio_message_def content_of_def first_text_def)
  have e: "extract_booking_data_node
      (haircut_state ''10:00'' False [studio_message ''a haircut tomorrow at 10:00'']) =
      Inr (haircut_state ''10:00'' False [studio_message ''a haircut tomorrow at 10:00''])"
    by code_simp
  from extract_idempotent [OF m t] m t e show ?thesis by simp
qed

text \<open>
  C8. The Ask-For-Information node never raises. It sets \<^verbatim>\<open>answer\<close>, and nothing else:
  to the question for the service when the service is absent; else, when the date is
  absent, to the question for the date, which names the service the booking holds; and
  when both are present, to the generic request for more details.
\<close>

theorem ask_for_information_reply:
  "\<exists>reply. ask_for_information_node state = Inr (state\<lparr>answer := Some reply\<rparr>) \<and>
     (\<not> has_service (booking_data state) \<longrightarrow>
        reply = ''Hi! What service do you need? We have haircut, beard trim, and styling.'') \<and>
     (has_service (booking_data state) \<and> \<not> has_date (booking_data state) \<longrightarrow>
        (\<exists>s. service (booking_data state) = Str s \<and> s \<noteq> [] \<and>
           reply = ''Perfect, a '' @ s @
             ''. When do you need it? (today, tomorrow, day after tomorrow)'')) \<and>
     (has_service (booking_data state) \<and> has_date (booking_data state) \<longrightarrow>
        reply = ''Could you give me more details about your booking?'')"
  by (cases "service (booking_data state)")
    (simp_all add: ask_for_information_node_def Let_def has_service_def has_date_def
      dict_get_def dict_index_def truthy_def fmt_def)

text \<open>C8, witness: the service is known, the date is not.\<close>

theorem ask_for_information_reply_witness:
  "has_service (booking_data
     ((fresh_state [])\<lparr>booking_data := empty_booking\<lparr>service := Str ''haircut''\<rparr>\<rparr>)) \<and>
   \<not> has_date (booking_data
     ((fresh_state [])\<lparr>booking_data := empty_booking\<lparr>service := Str ''haircut''\<rparr>\<rparr>)) \<and>
   ask_for_information_node
     ((fresh_state [])\<lparr>booking_data := empty_booking\<lparr>service := Str ''haircut''\<rparr>\<rparr>) =
     Inr ((fresh_state [])\<lparr>booking_data := empty_booking\<lparr>service := Str ''haircut''\<rparr>,
        answer := Some (''Perfect, a haircut. When do you need it? '' @
          ''(today, tomorrow, day after tomorrow)'')\<rparr>)"
  using ask_for_information_reply
    [of "(fresh_state [])\<lparr>booking_data := empty_booking\<lparr>service := Str ''haircut''\<rparr>\<rparr>"]
  by (auto simp: fresh_state_def empty_booking_def has_service_def has_date_def
      dict_get_def truthy_def)

text \<open>
  C9. On a state whose list of messages is empty, the Data Extraction node returns the
  state it was given: every field is the input's.
\<close>

theorem extract_empty_transcript:
  assumes "messages state = []"
  shows "extract_booking_data_node state = Inr state"
  using assms by (simp add: extract_booking_data_node_def)

text \<open>C9, witness: the empty conversation.\<close>

theorem extract_empty_transcript_witness:
  "messages (fresh_state []) = [] \<and>
   extract_booking_data_node (fresh_state []) = Inr (fresh_state [])"
proof -
  have m: "messages (fresh_state []) = []"
    by (simp add: fresh_state_def)
  from extract_empty_transcript [OF m] m show ?thesis by simp
qed

text \<open>
  C10. The confirmation test of the Data Extraction node is a substring test on the
  lowercased latest utterance: for every string, the test holds exactly when
  \<^verbatim>\<open>yes\<close>, \<^verbatim>\<open>perfect\<close>, \<^verbatim>\<open>ok\<close> or \<^verbatim>\<open>confirm\<close> occurs somewhere in it, and for
  every state whose last message has the text \<open>utterance\<close> the node returns a state that
  is confirmed exactly when the input was, or service, date and time are all present
  after the merge and one of the four words occurs somewhere in the lowercased
  utterance. So for every utterance that contains \<^verbatim>\<open>book\<close>, whatever else it says, the
  node returns a confirmed state whenever service, date and time are all present after
  the merge.
\<close>

theorem affirmative_is_substring_match:
  "(affirmative m \<longleftrightarrow>
      (\<exists>w \<in> {''yes'', ''perfect'', ''ok'', ''confirm''}. \<exists>p q. m = p @ w @ q)) \<and>
   (messages state \<noteq> [] \<and>
    first_text (content_of (last (messages state))) = Inr utterance \<longrightarrow>
      (\<exists>state'. extract_booking_data_node state = Inr state' \<and>
         booking_data state' = merge_booking (lower utterance) (booking_data state) \<and>
         (booking_confirmed state' \<longleftrightarrow>
            booking_confirmed state \<or>
            has_service (booking_data state') \<and> has_date (booking_data state') \<and>
            has_time (booking_data state') \<and>
            (\<exists>w \<in> {''yes'', ''perfect'', ''ok'', ''confirm''}.
               \<exists>p q. lower utterance = p @ w @ q)) \<and>
         ((\<exists>p q. lower utterance = p @ ''book'' @ q) \<and>
          has_service (booking_data state') \<and> has_date (booking_data state') \<and>
          has_time (booking_data state') \<longrightarrow> booking_confirmed state')))"
proof (intro conjI impI)
  show "affirmative m \<longleftrightarrow>
      (\<exists>w \<in> {''yes'', ''perfect'', ''ok'', ''confirm''}. \<exists>p q. m = p @ w @ q)"
    by (rule affirmative_iff)
next
  assume a: "messages state \<noteq> [] \<and>
    first_text (content_of (last (messages state))) = Inr utterance"
  define state' where "state' =
    state\<lparr>booking_data := merge_booking (lower utterance) (booking_data state),
          booking_confirmed :=
            (booking_confirmed state \<or>
             has_service (merge_booking (lower utterance) (booking_data state)) \<and>
             has_date (merge_booking (lower utterance) (booking_data state)) \<and>
             has_time (merge_booking (lower utterance) (booking_data state)) \<and>
             affirmative (lower utterance))\<rparr>"
  from a have ret: "extract_booking_data_node state = Inr state'"
    unfolding state'_def by (simp add: extract_with_text)
  have bd: "booking_data state' = merge_booking (lower utterance) (booking_data state)"
    by (simp add: state'_def)
  have gate: "booking_confirmed state' \<longleftrightarrow>
      booking_confirmed state \<or>
      has_service (booking_data state') \<and> has_date (booking_data state') \<and>
      has_time (booking_data state') \<and>
      (\<exists>w \<in> {''yes'', ''perfect'', ''ok'', ''confirm''}.
         \<exists>p q. lower utterance = p @ w @ q)"
    unfolding affirmative_iff [symmetric] by (simp add: state'_def)
  have book: "(\<exists>p q. lower utterance = p @ ''book'' @ q) \<and>
      has_service (booking_data state') \<and> has_date (booking_data state') \<and>
      has_time (booking_data state') \<longrightarrow> booking_confirmed state'"
  proof
    assume b: "(\<exists>p q. lower utterance = p @ ''book'' @ q) \<and>
      has_service (booking_data state') \<and> has_date (booking_data state') \<and>
      has_time (booking_data state')"
    then obtain p q where "lower utterance = p @ ''book'' @ q"
      by blast
    then have "lower utterance = (p @ ''bo'') @ ''ok'' @ q"
      by simp
    then have "\<exists>w \<in> {''yes'', ''perfect'', ''ok'', ''confirm''}.
        \<exists>p q. lower utterance = p @ w @ q"
      by blast
    with b gate show "booking_confirmed state'"
      by blast
  qed
  from ret bd gate book
  show "\<exists>state'. extract_booking_data_node state = Inr state' \<and>
         booking_data state' = merge_booking (lower utterance) (booking_data state) \<and>
         (booking_confirmed state' \<longleftrightarrow>
            booking_confirmed state \<or>
            has_service (booking_data state') \<and> has_date (booking_data state') \<and>
            has_time (booking_data state') \<and>
            (\<exists>w \<in> {''yes'', ''perfect'', ''ok'', ''confirm''}.
               \<exists>p q. lower utterance = p @ w @ q)) \<and>
         ((\<exists>p q. lower utterance = p @ ''book'' @ q) \<and>
          has_service (booking_data state') \<and> has_date (booking_data state') \<and>
          has_time (booking_data state') \<longrightarrow> booking_confirmed state')"
    by blast
qed

text \<open>
  C10, witness: \<^verbatim>\<open>Book a haircut tomorrow at 10:00\<close>, the first message of a
  conversation. None of its words is a confirmation word, its lowercased text contains
  \<^verbatim>\<open>book\<close>, and the node returns a confirmed booking. The test itself holds of
  \<^verbatim>\<open>perfect!\<close> and fails on \<^verbatim>\<open>no thanks\<close>.
\<close>

theorem affirmative_is_substring_match_witness:
  "\<not> list_ex (\<lambda>w. w \<in> set confirmation_words)
       (words_of (lower ''Book a haircut tomorrow at 10:00'')) \<and>
   is_in ''book'' (lower ''Book a haircut tomorrow at 10:00'') \<and>
   affirmative ''perfect!'' \<and> \<not> affirmative ''no thanks'' \<and>
   extract_booking_data_node (fresh_state [studio_message ''Book a haircut tomorrow at 10:00'']) =
     Inr ((haircut_state ''10:00'' True [studio_message ''Book a haircut tomorrow at 10:00''])
       \<lparr>intent := None\<rparr>)"
proof -
  have w: "\<not> list_ex (\<lambda>w. w \<in> set confirmation_words)
      (words_of (lower ''Book a haircut tomorrow at 10:00''))"
    by code_simp
  have b: "is_in ''book'' (lower ''Book a haircut tomorrow at 10:00'')"
    by code_simp
  have y: "affirmative ''perfect!''" and n: "\<not> affirmative ''no thanks''"
    by code_simp+
  have m: "messages (fresh_state [studio_message ''Book a haircut tomorrow at 10:00'']) \<noteq> []"
    by (simp add: fresh_state_def)
  have t: "first_text (content_of (last (messages
      (fresh_state [studio_message ''Book a haircut tomorrow at 10:00''])))) =
      Inr ''Book a haircut tomorrow at 10:00''"
    by (simp add: fresh_state_def studio_message_def content_of_def first_text_def)
  have e: "extract_booking_data_node
      (fresh_state [studio_message ''Book a haircut tomorrow at 10:00'']) =
      Inr ((haircut_state ''10:00'' True [studio_message ''Book a haircut tomorrow at 10:00''])
        \<lparr>intent := None\<rparr>)"
    by code_simp
  from affirmative_is_substring_match
    [of "''perfect!''" "fresh_state [studio_message ''Book a haircut tomorrow at 10:00'']"
      "''Book a haircut tomorrow at 10:00''"]
    w b y n m t e
  show ?thesis by simp
qed

end
